theory Spec2Isabelle
  imports Main "HOL-Library.Sublist"
begin

section \<open>The benchmark driver \<^verbatim>\<open>scripts/benchmarks_ci.py\<close>\<close>

text \<open>
  The script parses its command line, acquires the tools, builds the micro benchmarks and
  runs them. Everything it does goes through four modules that are not part of the file
  itself (\<^verbatim>\<open>dotnet\<close>, \<^verbatim>\<open>micro_benchmarks\<close>, \<^verbatim>\<open>benchview\<close>,
  \<^verbatim>\<open>performance\<close>) and through \<^verbatim>\<open>argparse\<close>. The model keeps the script's own
  control flow and records every call into those modules, with its arguments, in a log;
  whether such a call returns or raises is a parameter of the model.
\<close>

subsection \<open>Data\<close>

text \<open>
  The namespace returned by \<^verbatim>\<open>parser.parse_args\<close>: the options this file declares, and the
  options of the other modules that \<^verbatim>\<open>__main\<close> reads. Options without a default are
  \<^verbatim>\<open>None\<close> when absent.
\<close>

record args =
  cli_source_info :: string
  cli_branch :: "string option"
  cli_commit_sha :: "string option"
  cli_repository :: "string option"
  cli_source_timestamp :: "string option"
  quiet :: bool
  build_only :: bool
  run_only :: bool
  generate_benchview_data :: bool
  benchview_submission_name :: "string option"
  frameworks :: "string list"
  architecture :: string
  dotnet_version :: "string option"
  csprojfile :: string
  bin_directory :: string
  configuration :: string
  incremental :: string

text \<open>The object built by \<^verbatim>\<open>dotnet.CSharpProject(project=..., bin_directory=...)\<close>.\<close>

record csharp_project =
  project :: string
  project_bin_directory :: string

text \<open>
  The calls that leave the file, each with the arguments the script passes. The logger's
  \<^verbatim>\<open>info\<close> is logged as well.
\<close>

datatype call =
    Validate_supported_runtime
  | Setup_loggers bool
  | Logger_info string
  | Dotnet_install string "string list" "string option" bool
  | Benchview_install
  | Dotnet_info bool
  | New_csharp_project string string
  | Build csharp_project string "string list" string bool
  | Run csharp_project string string bool args
  | Run_scripts args bool csharp_project

text \<open>
  Exceptions: the two the file raises itself, the exit of \<^verbatim>\<open>argparse\<close> on a rejected
  command line, and whatever a collaborator raises (\<open>'e\<close>, never inspected by the script:
  the file has no \<^verbatim>\<open>except\<close> clause other than the one for \<^verbatim>\<open>ValueError\<close> in the
  timestamp check).
\<close>

datatype 'e error =
    RuntimeError string
  | ArgumentTypeError string
  | Parser_error nat string
  | Raised 'e

type_synonym env = "string \<Rightarrow> string option"

text \<open>
  The state the script acts on: the log of calls made so far, each paired with the process
  environment in force when it was made (what a child process started by the call
  inherits), and \<^verbatim>\<open>os.environ\<close>.
\<close>

record world =
  calls :: "(call \<times> env) list"
  environ :: env

text \<open>
  What the file does not define: for each external call, whether it raises (it may depend on
  everything that happened before); the two static methods of
  \<^verbatim>\<open>micro_benchmarks.FrameworkAction\<close>, which return or raise; and the argument parser
  with the options of all modules registered.
\<close>

record 'e collaborators =
  outcome :: "world \<Rightarrow> call \<Rightarrow> 'e option"
  get_channel :: "string \<Rightarrow> 'e + string"
  get_target_framework_monikers :: "string list \<Rightarrow> 'e + string list"
  parse_args :: "string list \<Rightarrow> 'e error + args"

subsection \<open>Statements\<close>

text \<open>A statement maps the state to the exception it raised, if any, and the state it left.\<close>

type_synonym 'e stmt = "world \<Rightarrow> 'e error option \<times> world"

definition skip :: "'e stmt" where
  "skip w = (None, w)"

definition raise :: "'e error \<Rightarrow> 'e stmt" where
  "raise e w = (Some e, w)"

definition and_then :: "'e stmt \<Rightarrow> 'e stmt \<Rightarrow> 'e stmt" where
  "and_then s t w = (case s w of (None, w') \<Rightarrow> t w' | (Some e, w') \<Rightarrow> (Some e, w'))"

definition invoke :: "'e collaborators \<Rightarrow> call \<Rightarrow> 'e stmt" where
  "invoke k c w = (map_option Raised (outcome k w c), w\<lparr>calls := calls w @ [(c, environ w)]\<rparr>)"

definition logger_info :: "string \<Rightarrow> 'e stmt" where
  "logger_info msg w = (None, w\<lparr>calls := calls w @ [(Logger_info msg, environ w)]\<rparr>)"

definition environ_set :: "string \<Rightarrow> string \<Rightarrow> 'e stmt" where
  "environ_set var val w = (None, w\<lparr>environ := (environ w)(var \<mapsto> val)\<rparr>)"

text \<open>\<^verbatim>\<open>sep.join(xs)\<close>\<close>

fun join :: "string \<Rightarrow> string list \<Rightarrow> string" where
  "join sep [] = []"
| "join sep [x] = x"
| "join sep (x # y # ys) = x @ sep @ join sep (y # ys)"

text \<open>\<^verbatim>\<open>not s\<close> for an optional string: true of \<^verbatim>\<open>None\<close> and of the empty string.\<close>

fun falsy :: "string option \<Rightarrow> bool" where
  "falsy None = True"
| "falsy (Some s) = (s = [])"

subsection \<open>\<^verbatim>\<open>init_tools\<close>\<close>

text \<open>
  The list comprehension \<^verbatim>\<open>[get_channel(m) for m in target_framework_monikers]\<close>: one
  element per moniker, left to right, stopping at the first call that raises.
\<close>

fun channels_of :: "(string \<Rightarrow> 'e + string) \<Rightarrow> string list \<Rightarrow> 'e + string list" where
  "channels_of gc [] = Inr []"
| "channels_of gc (m # ms) =
     (case gc m of
        Inl e \<Rightarrow> Inl e
      | Inr c \<Rightarrow> (case channels_of gc ms of Inl e \<Rightarrow> Inl e | Inr cs \<Rightarrow> Inr (c # cs)))"

definition init_tools ::
  "'e collaborators \<Rightarrow> string \<Rightarrow> string option \<Rightarrow> string list \<Rightarrow> bool \<Rightarrow> 'e stmt" where
  "init_tools k arch vers tfms verbose =
     and_then (logger_info ''Installing tools.'')
       (case channels_of (get_channel k) tfms of
          Inl e \<Rightarrow> raise (Raised e)
        | Inr channels \<Rightarrow>
            and_then (invoke k (Dotnet_install arch channels vers verbose))
                     (invoke k Benchview_install))"

subsection \<open>\<^verbatim>\<open>__main\<close>\<close>

definition target_frameworks_var :: string where
  "target_frameworks_var = ''PYTHON_SCRIPT_TARGET_FRAMEWORKS''"

definition submission_name_message :: string where
  "submission_name_message =
     ''In order to generate BenchView data,'' @ [CHR 0x0A] @
     ''            `--benchview-submission-name` must be provided.''"

text \<open>The loop \<^verbatim>\<open>for framework in args.frameworks: micro_benchmarks.run(...)\<close>.\<close>

fun run_each ::
  "'e collaborators \<Rightarrow> csharp_project \<Rightarrow> args \<Rightarrow> bool \<Rightarrow> string list \<Rightarrow> 'e stmt" where
  "run_each k proj a verbose [] = skip"
| "run_each k proj a verbose (framework # rest) =
     and_then (invoke k (Run proj (configuration a) framework verbose a))
              (run_each k proj a verbose rest)"

text \<open>
  \<^verbatim>\<open>BENCHMARKS_CSPROJ\<close>, the value of
  \<^verbatim>\<open>dotnet.CSharpProject(project=args.csprojfile, bin_directory=args.bin_directory)\<close>.
\<close>

definition benchmarks_csproj :: "args \<Rightarrow> csharp_project" where
  "benchmarks_csproj a = \<lparr>project = csprojfile a, project_bin_directory = bin_directory a\<rparr>"

text \<open>The body of \<^verbatim>\<open>__main\<close> from the parsed namespace on.\<close>

definition main_parsed :: "'e collaborators \<Rightarrow> args \<Rightarrow> 'e stmt" where
  "main_parsed k a =
     (let verbose = \<not> quiet a in
      and_then (invoke k (Setup_loggers verbose))
        (if generate_benchview_data a \<and> falsy (benchview_submission_name a)
         then raise (RuntimeError submission_name_message)
         else
           (case get_target_framework_monikers k (frameworks a) of
              Inl e \<Rightarrow> raise (Raised e)
            | Inr tfms \<Rightarrow>
               (let proj = benchmarks_csproj a in
                and_then (init_tools k (architecture a) (dotnet_version a) tfms verbose)
               (and_then (environ_set target_frameworks_var (join '';'' tfms))
               (and_then (invoke k (Dotnet_info verbose))
               (and_then (invoke k (New_csharp_project (csprojfile a) (bin_directory a)))
               (and_then
                  (if \<not> run_only a
                   then invoke k (Build proj (configuration a) tfms (incremental a) verbose)
                   else skip)
                  (if \<not> build_only a
                   then and_then (run_each k proj a verbose (frameworks a))
                                 (invoke k (Run_scripts a verbose proj))
                   else skip)))))))))"

definition main :: "'e collaborators \<Rightarrow> string list \<Rightarrow> 'e stmt" where
  "main k argv =
     and_then (invoke k Validate_supported_runtime)
       (case parse_args k argv of
          Inl e \<Rightarrow> raise e
        | Inr a \<Rightarrow> main_parsed k a)"

subsection \<open>The timestamp check of \<^verbatim>\<open>--cli-source-timestamp\<close>\<close>

text \<open>
  \<^verbatim>\<open>datetime.strptime(dt, '%Y-%m-%dT%H:%M:%SZ')\<close> is the standard library's: it turns the
  format into a regular expression, one named group per directive, compiled with
  \<^verbatim>\<open>IGNORECASE\<close>; matches it at the start of the string; rejects a match that leaves
  input over; converts the groups with \<^verbatim>\<open>int\<close>; and builds the date and the
  \<^verbatim>\<open>datetime\<close>, whose constructors reject values out of range. All the rejections are
  \<^verbatim>\<open>ValueError\<close>. The expressions have no repetition, so a backtracking matcher is a
  list of the ways to match, in the order the alternatives are tried; the first is the
  match found. Strings are lists of characters with codes below 256, among which the
  decimal digits are the ASCII ones.
\<close>

datatype regex =
    Eps
  | One "char list"
  | Seq regex regex
  | Alt regex regex
  | Named string regex

fun all_matches :: "regex \<Rightarrow> string \<Rightarrow> ((string \<times> string) list \<times> string) list" where
  "all_matches Eps s = [([], s)]"
| "all_matches (One cs) s =
     (case s of [] \<Rightarrow> [] | c # r \<Rightarrow> if c \<in> set cs then [([], r)] else [])"
| "all_matches (Seq a b) s =
     concat (map (\<lambda>m. map (\<lambda>n. (fst m @ fst n, snd n)) (all_matches b (snd m)))
                 (all_matches a s))"
| "all_matches (Alt a b) s = all_matches a s @ all_matches b s"
| "all_matches (Named g a) s =
     map (\<lambda>m. ((g, take (length s - length (snd m)) s) # fst m, snd m)) (all_matches a s)"

text \<open>\<^verbatim>\<open>pattern.match(s)\<close>: the first way to match at the start of \<open>s\<close>, if there is one.\<close>

definition re_match :: "regex \<Rightarrow> string \<Rightarrow> ((string \<times> string) list \<times> string) option" where
  "re_match r s = (case all_matches r s of [] \<Rightarrow> None | m # _ \<Rightarrow> Some m)"

definition seqs :: "regex list \<Rightarrow> regex" where
  "seqs rs = foldr Seq rs Eps"

fun alts :: "regex list \<Rightarrow> regex" where
  "alts [] = One []"
| "alts [r] = r"
| "alts (r # rs) = Alt r (alts rs)"

definition digit :: regex where
  "digit = One ''0123456789''"

definition nonzero :: regex where
  "nonzero = One ''123456789''"

text \<open>
  The expression for \<^verbatim>\<open>%Y-%m-%dT%H:%M:%SZ\<close>:
  \<^verbatim>\<open>(?P<Y>\d\d\d\d)-(?P<m>1[0-2]|0[1-9]|[1-9])-(?P<d>3[0-1]|[1-2]\d|0[1-9]|[1-9]| [1-9])T\<close>
  \<^verbatim>\<open>(?P<H>2[0-3]|[0-1]\d|\d):(?P<M>[0-5]\d|\d):(?P<S>6[0-1]|[0-5]\d|\d)Z\<close>,
  letters in either case.
\<close>

definition format_regex :: regex where
  "format_regex = seqs
     [Named ''Y'' (seqs [digit, digit, digit, digit]),
      One ''-'',
      Named ''m'' (alts [seqs [One ''1'', One ''012''], seqs [One ''0'', nonzero], nonzero]),
      One ''-'',
      Named ''d'' (alts [seqs [One ''3'', One ''01''], seqs [One ''12'', digit],
                         seqs [One ''0'', nonzero], nonzero, seqs [One '' '', nonzero]]),
      One ''Tt'',
      Named ''H'' (alts [seqs [One ''2'', One ''0123''], seqs [One ''01'', digit], digit]),
      One '':'',
      Named ''M'' (alts [seqs [One ''012345'', digit], digit]),
      One '':'',
      Named ''S'' (alts [seqs [One ''6'', One ''01''], seqs [One ''012345'', digit], digit]),
      One ''Zz'']"

text \<open>\<^verbatim>\<open>int(s)\<close> on a captured group: digits, after a blank in the padded day.\<close>

definition int_of :: "string \<Rightarrow> nat" where
  "int_of s = foldl (\<lambda>n c. 10 * n + (of_char c - 48)) 0 (dropWhile (\<lambda>c. c = CHR '' '') s)"

definition found_group :: "(string \<times> string) list \<Rightarrow> string \<Rightarrow> string" where
  "found_group found g = (case map_of found g of None \<Rightarrow> [] | Some s \<Rightarrow> s)"

definition is_leap :: "nat \<Rightarrow> bool" where
  "is_leap y = (y mod 4 = 0 \<and> (y mod 100 \<noteq> 0 \<or> y mod 400 = 0))"

definition days_in_month :: "nat \<Rightarrow> nat \<Rightarrow> nat" where
  "days_in_month y m =
     (if m = 2 then (if is_leap y then 29 else 28)
      else if m \<in> {4, 6, 9, 11} then 30 else 31)"

record datetime =
  year :: nat
  month :: nat
  day :: nat
  hour :: nat
  minute :: nat
  second :: nat

datatype value_error = Does_not_match | Unconverted_data_remains | Out_of_range

definition strptime :: "string \<Rightarrow> value_error + datetime" where
  "strptime data_string =
     (case re_match format_regex data_string of
        None \<Rightarrow> Inl Does_not_match
      | Some (found, rest) \<Rightarrow>
          if rest \<noteq> [] then Inl Unconverted_data_remains
          else
            (let d = \<lparr>year = int_of (found_group found ''Y''), month = int_of (found_group found ''m''),
                      day = int_of (found_group found ''d''), hour = int_of (found_group found ''H''),
                      minute = int_of (found_group found ''M''), second = int_of (found_group found ''S'')\<rparr>
             in if year d < 1 \<or> days_in_month (year d) (month d) < day d \<or> 59 < second d
                then Inl Out_of_range
                else Inr d))"

text \<open>The converter \<^verbatim>\<open>__is_valid_datetime\<close> given to \<^verbatim>\<open>add_argument\<close> as \<^verbatim>\<open>type\<close>.\<close>

definition is_valid_datetime :: "string \<Rightarrow> 'e error + string" where
  "is_valid_datetime dt =
     (case strptime dt of
        Inr d \<Rightarrow> Inr dt
      | Inl v \<Rightarrow> Inl (ArgumentTypeError (''Datetime '' @ [CHR 0x22] @ dt @ [CHR 0x22] @
                                          '' is in the wrong format.'')))"

text \<open>
  What \<^verbatim>\<open>argparse\<close> makes of the converter on the value of the option: an
  \<^verbatim>\<open>ArgumentTypeError\<close> becomes the parser's error, which prefixes the option's name to
  the message and exits with status 2.
\<close>

definition cli_source_timestamp_value :: "string \<Rightarrow> 'e error + string" where
  "cli_source_timestamp_value dt =
     (case is_valid_datetime dt of
        Inl (ArgumentTypeError msg) \<Rightarrow>
          Inl (Parser_error 2 (''argument --cli-source-timestamp: '' @ msg))
      | r \<Rightarrow> r)"

text \<open>
  The timestamps the specification calls well formed, \<^verbatim>\<open>YYYY-MM-DDTHH:MM:SSZ\<close>: the fields
  of a date and time that exist, in decimal, padded with zeros to four digits for the year
  and two for the others.
\<close>

definition digit_char :: "nat \<Rightarrow> char" where
  "digit_char n = ''0123456789'' ! (n mod 10)"

definition two_digits :: "nat \<Rightarrow> string" where
  "two_digits n = [digit_char (n div 10), digit_char n]"

definition four_digits :: "nat \<Rightarrow> string" where
  "four_digits n =
     [digit_char (n div 1000), digit_char (n div 100), digit_char (n div 10), digit_char n]"

definition rfc3339 :: "datetime \<Rightarrow> string" where
  "rfc3339 d =
     four_digits (year d) @ ''-'' @ two_digits (month d) @ ''-'' @ two_digits (day d) @ ''T'' @
     two_digits (hour d) @ '':'' @ two_digits (minute d) @ '':'' @ two_digits (second d) @ ''Z''"

definition exists_datetime :: "datetime \<Rightarrow> bool" where
  "exists_datetime d =
     (1 \<le> year d \<and> year d \<le> 9999 \<and> 1 \<le> month d \<and> month d \<le> 12 \<and>
      1 \<le> day d \<and> day d \<le> days_in_month (year d) (month d) \<and>
      hour d \<le> 23 \<and> minute d \<le> 59 \<and> second d \<le> 59)"

text \<open>Selections from the log.\<close>

fun is_install :: "call \<Rightarrow> bool" where
  "is_install (Dotnet_install a c v b) = True"
| "is_install Benchview_install = True"
| "is_install c = False"

fun is_build :: "call \<Rightarrow> bool" where
  "is_build (Build p c ms i v) = True"
| "is_build c = False"

fun is_run :: "call \<Rightarrow> bool" where
  "is_run (Run p c f v a) = True"
| "is_run c = False"

fun is_report :: "call \<Rightarrow> bool" where
  "is_report (Run_scripts a v p) = True"
| "is_report c = False"

definition made :: "world \<Rightarrow> call list" where
  "made w = map fst (calls w)"

definition call_count :: "(call \<Rightarrow> bool) \<Rightarrow> world \<Rightarrow> nat" where
  "call_count which w = length (filter which (made w))"

definition start :: "env \<Rightarrow> world" where
  "start e = \<lparr>calls = [], environ = e\<rparr>"

subsection \<open>Reasoning about statements\<close>

text \<open>
  \<open>passes P s Q R\<close>: from \<open>P\<close>, the statement leaves \<open>Q\<close> when it returns and \<open>R\<close> when
  it raises.
\<close>

definition passes ::
  "(world \<Rightarrow> bool) \<Rightarrow> 'e stmt \<Rightarrow> (world \<Rightarrow> bool) \<Rightarrow> (world \<Rightarrow> bool) \<Rightarrow> bool" where
  "passes P s Q R = (\<forall>w. P w \<longrightarrow> (case s w of (None, w') \<Rightarrow> Q w' | (Some e, w') \<Rightarrow> R w'))"

text \<open>\<open>avoids bad w\<close>: no call in the log of \<open>w\<close> is one of the \<open>bad\<close> ones.\<close>

definition avoids :: "(call \<Rightarrow> bool) \<Rightarrow> world \<Rightarrow> bool" where
  "avoids bad w = (filter bad (made w) = [])"

text \<open>
  \<open>builds_see e w\<close>: every \<^verbatim>\<open>build\<close> call in the log of \<open>w\<close> was made in the environment
  \<open>e\<close> with the variable set to the joined monikers the call carries. \<open>before_set\<close> and
  \<open>after_set\<close> add what \<^verbatim>\<open>os.environ\<close> is before and after the assignment, and
  \<open>set_at_most\<close> that it differs from \<open>e\<close> in that variable at most.
\<close>

definition builds_see :: "env \<Rightarrow> world \<Rightarrow> bool" where
  "builds_see e w =
     (\<forall>p c ms i v en. (Build p c ms i v, en) \<in> set (calls w) \<longrightarrow>
        en = e(target_frameworks_var \<mapsto> join '';'' ms))"

definition before_set :: "env \<Rightarrow> world \<Rightarrow> bool" where
  "before_set e w = (builds_see e w \<and> environ w = e)"

definition after_set :: "env \<Rightarrow> string list \<Rightarrow> world \<Rightarrow> bool" where
  "after_set e tfms w =
     (builds_see e w \<and> environ w = e(target_frameworks_var \<mapsto> join '';'' tfms))"

definition set_at_most :: "env \<Rightarrow> world \<Rightarrow> bool" where
  "set_at_most e w =
     (builds_see e w \<and> (\<forall>x. x \<noteq> target_frameworks_var \<longrightarrow> environ w x = e x))"

subsection \<open>Sample collaborators\<close>

text \<open>
  The three options \<^verbatim>\<open>add_arguments\<close> declares with \<^verbatim>\<open>action='store_true'\<close>, each on
  its own: the value is true when the option string is on the command line and false
  otherwise.
\<close>

definition store_true_flags :: "string list \<Rightarrow> args \<Rightarrow> args" where
  "store_true_flags argv a =
     a\<lparr>quiet := (''-q'' \<in> set argv \<or> ''--quiet'' \<in> set argv),
       build_only := (''--build-only'' \<in> set argv),
       run_only := (''--run-only'' \<in> set argv)\<rparr>"

text \<open>
  Collaborators for the examples: every call returns, a moniker \<^verbatim>\<open>netX.Y\<close> has the channel
  \<^verbatim>\<open>X.Y\<close>, the monikers are the frameworks, and the parser yields the given namespace
  with the three flags of this file read from the command line.
\<close>

definition example_channel :: "string \<Rightarrow> 'e + string" where
  "example_channel m = Inr (drop 3 m)"

definition obliging :: "args \<Rightarrow> 'e collaborators" where
  "obliging a =
     \<lparr>outcome = (\<lambda>w c. None), get_channel = example_channel,
      get_target_framework_monikers = Inr,
      parse_args = (\<lambda>argv. Inr (store_true_flags argv a))\<rparr>"

text \<open>The namespace of a command line that names one project and the given frameworks.\<close>

definition example_args :: "string list \<Rightarrow> args" where
  "example_args fs =
     \<lparr>cli_source_info = ''init-tools'', cli_branch = None, cli_commit_sha = None,
      cli_repository = None, cli_source_timestamp = None, quiet = False,
      build_only = False, run_only = False, generate_benchview_data = False,
      benchview_submission_name = None, frameworks = fs, architecture = ''x64'',
      dotnet_version = None, csprojfile = ''MicroBenchmarks.csproj'', bin_directory = ''bin'',
      configuration = ''Release'', incremental = ''yes''\<rparr>"

definition example_project :: csharp_project where
  "example_project = \<lparr>project = ''MicroBenchmarks.csproj'', project_bin_directory = ''bin''\<rparr>"

text \<open>
  The two severities the specification distinguishes in a failed run, as the value a
  collaborator raises; and collaborators whose \<^verbatim>\<open>micro_benchmarks.run\<close> raises the
  given failure for the given framework and returns for the others.
\<close>

datatype failure = Ordinary | Fatal

definition failing_run :: "string \<Rightarrow> failure \<Rightarrow> args \<Rightarrow> failure collaborators" where
  "failing_run f x a =
     \<lparr>outcome = (\<lambda>w c. if c = Run (benchmarks_csproj a) (configuration a) f (\<not> quiet a) a
                           then Some x else None),
      get_channel = example_channel, get_target_framework_monikers = Inr,
      parse_args = (\<lambda>argv. Inr (store_true_flags argv a))\<rparr>"

section \<open>Properties\<close>

subsection \<open>Rules for statements\<close>

lemma passes_skip: "passes P skip P R"
  by (simp add: passes_def skip_def)

lemma passes_raise: "passes P (raise e) Q P"
  by (simp add: passes_def raise_def)

lemma passes_and_then:
  assumes "passes P s Q R" and "passes Q t Q' R"
  shows "passes P (and_then s t) Q' R"
  unfolding passes_def
proof (intro allI impI)
  fix w assume "P w"
  with assms(1) have s: "case s w of (None, w') \<Rightarrow> Q w' | (Some e, w') \<Rightarrow> R w'"
    by (simp add: passes_def)
  show "case and_then s t w of (None, w') \<Rightarrow> Q' w' | (Some e, w') \<Rightarrow> R w'"
  proof (cases "s w")
    case (Pair r w')
    show ?thesis
    proof (cases r)
      case None
      with Pair s have "Q w'" by simp
      with assms(2) have "case t w' of (None, w'') \<Rightarrow> Q' w'' | (Some e, w'') \<Rightarrow> R w''"
        by (simp add: passes_def)
      with Pair None show ?thesis by (simp add: and_then_def)
    next
      case (Some e)
      with Pair s show ?thesis by (simp add: and_then_def)
    qed
  qed
qed

lemma passes_invoke:
  assumes "\<And>w. P w \<Longrightarrow> Q (w\<lparr>calls := calls w @ [(c, environ w)]\<rparr>)"
    and "\<And>w. P w \<Longrightarrow> R (w\<lparr>calls := calls w @ [(c, environ w)]\<rparr>)"
  shows "passes P (invoke k c) Q R"
  using assms by (auto simp: passes_def invoke_def split: option.splits)

lemma passes_logger_info:
  assumes "\<And>w. P w \<Longrightarrow> Q (w\<lparr>calls := calls w @ [(Logger_info m, environ w)]\<rparr>)"
  shows "passes P (logger_info m) Q R"
  using assms by (auto simp: passes_def logger_info_def)

lemma passes_environ_set:
  assumes "\<And>w. P w \<Longrightarrow> Q (w\<lparr>environ := (environ w)(x \<mapsto> v)\<rparr>)"
  shows "passes P (environ_set x v) Q R"
  using assms by (auto simp: passes_def environ_set_def)

lemma passes_after:
  assumes "passes P s Q R" and "P w"
  shows "Q (snd (s w)) \<or> R (snd (s w))"
proof (cases "s w")
  case (Pair r w')
  with assms show ?thesis
    by (cases r) (auto simp: passes_def)
qed

lemma passes_weaken:
  assumes "passes P s Q R" and "\<And>w. Q w \<Longrightarrow> Q' w" and "\<And>w. R w \<Longrightarrow> R' w"
  shows "passes P s Q' R'"
  unfolding passes_def
proof (intro allI impI)
  fix w assume "P w"
  with assms(1) have s: "case s w of (None, w') \<Rightarrow> Q w' | (Some e, w') \<Rightarrow> R w'"
    by (simp add: passes_def)
  show "case s w of (None, w') \<Rightarrow> Q' w' | (Some e, w') \<Rightarrow> R' w'"
  proof (cases "s w")
    case (Pair r w')
    with s assms(2,3) show ?thesis by (cases r) auto
  qed
qed

subsection \<open>Calls that are never made\<close>

lemma avoids_start: "avoids bad (start e)"
  by (simp add: avoids_def made_def start_def)

lemma avoids_call_count: "avoids bad w \<Longrightarrow> call_count bad w = 0"
  by (simp add: avoids_def call_count_def)

lemma avoids_invoke:
  "\<not> bad c \<Longrightarrow> passes (avoids bad) (invoke k c) (avoids bad) (avoids bad)"
  by (rule passes_invoke) (simp_all add: avoids_def made_def)

lemma avoids_logger_info:
  "\<not> bad (Logger_info m) \<Longrightarrow> passes (avoids bad) (logger_info m) (avoids bad) (avoids bad)"
  by (rule passes_logger_info) (simp add: avoids_def made_def)

lemma avoids_environ_set: "passes (avoids bad) (environ_set x v) (avoids bad) (avoids bad)"
  by (rule passes_environ_set) (simp add: avoids_def made_def)

lemma avoids_run_each:
  assumes "\<And>f. \<not> bad (Run proj (configuration a) f verbose a)"
  shows "passes (avoids bad) (run_each k proj a verbose fs) (avoids bad) (avoids bad)"
  by (induction fs) (auto intro!: passes_skip passes_and_then avoids_invoke assms)

lemma avoids_init_tools:
  assumes "\<not> bad (Logger_info ''Installing tools.'')"
    and "\<And>cs. \<not> bad (Dotnet_install arch cs vers verbose)"
    and "\<not> bad Benchview_install"
  shows "passes (avoids bad) (init_tools k arch vers tfms verbose) (avoids bad) (avoids bad)"
  unfolding init_tools_def
  by (auto intro!: passes_and_then avoids_logger_info avoids_invoke passes_raise assms
      split: sum.splits)

text \<open>With \<^verbatim>\<open>--run-only\<close> nothing is built; with \<^verbatim>\<open>--build-only\<close> nothing is run or reported.\<close>

lemma run_only_avoids_build:
  assumes "run_only a"
  shows "passes (avoids is_build) (main_parsed k a) (avoids is_build) (avoids is_build)"
  unfolding main_parsed_def Let_def using assms
  by (auto intro!: passes_and_then avoids_invoke avoids_init_tools avoids_environ_set
      avoids_run_each passes_raise passes_skip split: sum.splits)

lemma build_only_avoids_run:
  assumes "build_only a"
  shows "passes (avoids (\<lambda>c. is_run c \<or> is_report c)) (main_parsed k a)
           (avoids (\<lambda>c. is_run c \<or> is_report c)) (avoids (\<lambda>c. is_run c \<or> is_report c))"
  unfolding main_parsed_def Let_def using assms
  by (auto intro!: passes_and_then avoids_invoke avoids_init_tools avoids_environ_set
      passes_raise passes_skip split: sum.splits)

lemma main_avoids:
  assumes "parse_args k argv = Inr a"
    and "passes (avoids bad) (main_parsed k a) (avoids bad) (avoids bad)"
    and "\<not> bad Validate_supported_runtime"
  shows "call_count bad (snd (main k argv (start e))) = 0"
proof -
  have "passes (avoids bad) (main k argv) (avoids bad) (avoids bad)"
    unfolding main_def using assms
    by (auto intro!: passes_and_then avoids_invoke)
  from passes_after [OF this avoids_start] show ?thesis
    by (auto dest: avoids_call_count)
qed

subsection \<open>The log when every call returns\<close>

lemma run_each_returns:
  assumes "\<And>w c. outcome k w c = None"
  shows "run_each k proj a verbose fs w =
    (None, w\<lparr>calls := calls w @ map (\<lambda>f. (Run proj (configuration a) f verbose a, environ w)) fs\<rparr>)"
  by (induction fs arbitrary: w) (simp_all add: skip_def and_then_def invoke_def assms)

lemma init_tools_returns:
  assumes "\<And>w c. outcome k w c = None" and "channels_of (get_channel k) tfms = Inr cs"
  shows "init_tools k arch vers tfms verbose w =
    (None, w\<lparr>calls := calls w @ [(Logger_info ''Installing tools.'', environ w),
        (Dotnet_install arch cs vers verbose, environ w), (Benchview_install, environ w)]\<rparr>)"
  by (simp add: init_tools_def and_then_def logger_info_def invoke_def assms)

lemma main_parsed_returns:
  assumes "\<And>w c. outcome k w c = None"
    and "\<not> (generate_benchview_data a \<and> falsy (benchview_submission_name a))"
    and "get_target_framework_monikers k (frameworks a) = Inr tfms"
    and "channels_of (get_channel k) tfms = Inr cs"
  shows "main_parsed k a w =
    (None, \<lparr>calls = calls w @
        map (\<lambda>c. (c, environ w))
          [Setup_loggers (\<not> quiet a), Logger_info ''Installing tools.'',
           Dotnet_install (architecture a) cs (dotnet_version a) (\<not> quiet a), Benchview_install] @
        map (\<lambda>c. (c, (environ w)(target_frameworks_var \<mapsto> join '';'' tfms)))
          ([Dotnet_info (\<not> quiet a), New_csharp_project (csprojfile a) (bin_directory a)] @
           (if run_only a then []
            else [Build (benchmarks_csproj a) (configuration a) tfms (incremental a) (\<not> quiet a)]) @
           (if build_only a then []
            else map (\<lambda>f. Run (benchmarks_csproj a) (configuration a) f (\<not> quiet a) a)
                   (frameworks a) @
                 [Run_scripts a (\<not> quiet a) (benchmarks_csproj a)])),
      environ = (environ w)(target_frameworks_var \<mapsto> join '';'' tfms)\<rparr>)"
proof -
  have ok: "(generate_benchview_data a \<and> falsy (benchview_submission_name a)) = False"
    using assms(2) by simp
  show ?thesis
    by (simp add: main_parsed_def Let_def and_then_def skip_def invoke_def environ_set_def ok
        assms(3) init_tools_returns [OF assms(1,4)] run_each_returns [OF assms(1)] assms(1))
qed

lemma main_returns:
  assumes "\<And>w c. outcome k w c = None"
    and "parse_args k argv = Inr a"
    and "\<not> (generate_benchview_data a \<and> falsy (benchview_submission_name a))"
    and "get_target_framework_monikers k (frameworks a) = Inr tfms"
    and "channels_of (get_channel k) tfms = Inr cs"
  shows "fst (main k argv (start e)) = None"
    and "made (snd (main k argv (start e))) =
        [Validate_supported_runtime, Setup_loggers (\<not> quiet a),
         Logger_info ''Installing tools.'',
         Dotnet_install (architecture a) cs (dotnet_version a) (\<not> quiet a), Benchview_install,
         Dotnet_info (\<not> quiet a), New_csharp_project (csprojfile a) (bin_directory a)] @
        (if run_only a then []
         else [Build (benchmarks_csproj a) (configuration a) tfms (incremental a) (\<not> quiet a)]) @
        (if build_only a then []
         else map (\<lambda>f. Run (benchmarks_csproj a) (configuration a) f (\<not> quiet a) a)
                (frameworks a) @
              [Run_scripts a (\<not> quiet a) (benchmarks_csproj a)])"
    and "environ (snd (main k argv (start e))) = e(target_frameworks_var \<mapsto> join '';'' tfms)"
  using assms(2)
  by (simp_all add: main_def and_then_def invoke_def assms(1) made_def start_def comp_def
      main_parsed_returns [OF assms(1,3,4,5)])

lemma obliging_simps:
  "outcome (obliging a) w c = None"
  "get_channel (obliging a) = example_channel"
  "get_target_framework_monikers (obliging a) = Inr"
  "parse_args (obliging a) argv = Inr (store_true_flags argv a)"
  by (simp_all add: obliging_def)

lemma channels_of_map: "channels_of gc ms = Inr cs \<longleftrightarrow> map gc ms = map Inr cs"
proof (induction ms arbitrary: cs)
  case Nil
  then show ?case by auto
next
  case (Cons m ms)
  show ?case
  proof (cases "gc m")
    case (Inl e)
    then show ?thesis by (cases cs) auto
  next
    case (Inr c)
    show ?thesis
    proof (cases "channels_of gc ms")
      case (Inl e)
      have "map gc ms \<noteq> map Inr ds" for ds
        using Cons.IH [of ds] Inl by simp
      with Inl Inr show ?thesis by (cases cs) auto
    next
      case r: (Inr ds)
      with Cons.IH [of ds] have "map gc ms = map Inr ds" by simp
      with r Inr show ?thesis by (cases cs) (auto simp: inj_map_eq_map)
    qed
  qed
qed

subsection \<open>Provisioning\<close>

text \<open>
  C1. The docstring of \<^verbatim>\<open>init_tools\<close> promises a semaphore file that avoids reinstalling
  the tools on a rerun. The function has none: called twice with the same arguments, with
  every call returning, it invokes \<^verbatim>\<open>dotnet.install\<close> and \<^verbatim>\<open>benchview.install\<close> both
  times, four install calls in all, and logs \<^verbatim>\<open>Installing tools.\<close> each time.
\<close>

theorem init_tools_installs_every_time:
  assumes "\<And>w c. outcome k w c = None"
    and "channels_of (get_channel k) tfms = Inr cs"
  shows "made (snd (and_then (init_tools k arch vers tfms verbose)
                             (init_tools k arch vers tfms verbose) w)) =
         made w @
         [Logger_info ''Installing tools.'', Dotnet_install arch cs vers verbose, Benchview_install,
          Logger_info ''Installing tools.'', Dotnet_install arch cs vers verbose, Benchview_install]
       \<and> call_count is_install (snd (and_then (init_tools k arch vers tfms verbose)
                                          (init_tools k arch vers tfms verbose) w)) =
         call_count is_install w + 4"
  by (simp add: and_then_def init_tools_returns [OF assms] made_def call_count_def)

theorem init_tools_installs_every_time_witness:
  "call_count is_install
     (snd (and_then (init_tools (obliging (example_args [''net6.0'']) :: unit collaborators)
                       ''x64'' None [''net6.0''] True)
                    (init_tools (obliging (example_args [''net6.0''])) ''x64'' None [''net6.0''] True)
                    (start Map.empty))) = 4"
  using init_tools_installs_every_time
    [of "obliging (example_args [''net6.0'']) :: unit collaborators" "[''net6.0'']" "[''6.0'']"
        "''x64''" None True "start Map.empty"]
  by (simp add: obliging_simps store_true_flags_def example_channel_def call_count_def made_def start_def)

text \<open>
  C6, as claimed: the channels given to \<^verbatim>\<open>dotnet.install\<close> are de-duplicated. They are not:
  the moniker \<^verbatim>\<open>net6.0\<close> requested twice gives the channel \<^verbatim>\<open>6.0\<close> twice.
\<close>

theorem channels_keep_duplicates:
  "made (snd (init_tools (obliging (example_args []) :: unit collaborators)
                ''x64'' None [''net6.0'', ''net6.0''] True (start Map.empty))) =
     [Logger_info ''Installing tools.'', Dotnet_install ''x64'' [''6.0'', ''6.0''] None True,
      Benchview_install]
   \<and> \<not> distinct [''6.0'', ''6.0'']"
  by (simp add: init_tools_def and_then_def logger_info_def invoke_def obliging_simps
      example_channel_def made_def start_def)

text \<open>
  C6, amended: when \<^verbatim>\<open>get_channel\<close> returns for every moniker, the list given to
  \<^verbatim>\<open>dotnet.install\<close> is the image of the moniker list, element by element: the same
  length, the same order, repeated channels kept.
\<close>

theorem channels_are_the_image:
  assumes "channels_of (get_channel k) tfms = Inr cs"
  shows "map (get_channel k) tfms = map Inr cs
       \<and> prefix (made w @ [Logger_info ''Installing tools.'', Dotnet_install arch cs vers verbose])
                (made (snd (init_tools k arch vers tfms verbose w)))"
proof
  from assms show "map (get_channel k) tfms = map Inr cs"
    by (simp add: channels_of_map)
  from assms
  show "prefix (made w @ [Logger_info ''Installing tools.'', Dotnet_install arch cs vers verbose])
          (made (snd (init_tools k arch vers tfms verbose w)))"
    by (auto simp: init_tools_def and_then_def logger_info_def invoke_def made_def
        split: prod.splits option.splits)
qed

theorem channels_are_the_image_witness:
  "map example_channel [''net6.0'', ''net7.0'', ''net6.0''] =
     (map Inr [''6.0'', ''7.0'', ''6.0''] :: (unit + string) list)
   \<and> prefix [Logger_info ''Installing tools.'',
              Dotnet_install ''x64'' [''6.0'', ''7.0'', ''6.0''] None True]
        (made (snd (init_tools (obliging (example_args []) :: unit collaborators)
                      ''x64'' None [''net6.0'', ''net7.0'', ''net6.0''] True (start Map.empty))))"
  using channels_are_the_image
    [of "obliging (example_args []) :: unit collaborators" "[''net6.0'', ''net7.0'', ''net6.0'']"
        "[''6.0'', ''7.0'', ''6.0'']" "start Map.empty" "''x64''" None True]
  by (simp add: obliging_simps store_true_flags_def example_channel_def made_def start_def)


subsection \<open>The phases of \<^verbatim>\<open>__main\<close>\<close>

text \<open>
  C3. In full mode (neither \<^verbatim>\<open>--build-only\<close> nor \<^verbatim>\<open>--run-only\<close>) with the frameworks
  \<^verbatim>\<open>net6.0\<close> and \<^verbatim>\<open>net7.0\<close>, when every call returns, the calls made are, in this order:
  the start-up and provisioning calls, one \<^verbatim>\<open>build\<close> carrying the whole list of resolved
  monikers, the \<^verbatim>\<open>run\<close> of \<^verbatim>\<open>net6.0\<close>, the \<^verbatim>\<open>run\<close> of \<^verbatim>\<open>net7.0\<close>, and one
  \<^verbatim>\<open>run_scripts\<close> after both.
\<close>

theorem full_mode_two_frameworks:
  assumes "\<And>w c. outcome k w c = None"
    and "parse_args k argv = Inr a"
    and "frameworks a = [''net6.0'', ''net7.0'']"
    and "\<not> build_only a" and "\<not> run_only a"
    and "\<not> (generate_benchview_data a \<and> falsy (benchview_submission_name a))"
    and "get_target_framework_monikers k (frameworks a) = Inr tfms"
    and "channels_of (get_channel k) tfms = Inr cs"
  shows "fst (main k argv (start e)) = None
       \<and> made (snd (main k argv (start e))) =
           [Validate_supported_runtime, Setup_loggers (\<not> quiet a),
            Logger_info ''Installing tools.'',
            Dotnet_install (architecture a) cs (dotnet_version a) (\<not> quiet a), Benchview_install,
            Dotnet_info (\<not> quiet a), New_csharp_project (csprojfile a) (bin_directory a),
            Build (benchmarks_csproj a) (configuration a) tfms (incremental a) (\<not> quiet a),
            Run (benchmarks_csproj a) (configuration a) ''net6.0'' (\<not> quiet a) a,
            Run (benchmarks_csproj a) (configuration a) ''net7.0'' (\<not> quiet a) a,
            Run_scripts a (\<not> quiet a) (benchmarks_csproj a)]
       \<and> call_count is_build (snd (main k argv (start e))) = 1
       \<and> call_count is_run (snd (main k argv (start e))) = 2
       \<and> call_count is_report (snd (main k argv (start e))) = 1"
  using main_returns [OF assms(1,2,6,7,8), of e] assms(3,4,5)
  by (simp add: call_count_def)

theorem full_mode_two_frameworks_witness:
  "made (snd (main (obliging (example_args [''net6.0'', ''net7.0'']) :: unit collaborators) []
                (start Map.empty))) =
     [Validate_supported_runtime, Setup_loggers True, Logger_info ''Installing tools.'',
      Dotnet_install ''x64'' [''6.0'', ''7.0''] None True, Benchview_install,
      Dotnet_info True, New_csharp_project ''MicroBenchmarks.csproj'' ''bin'',
      Build example_project ''Release'' [''net6.0'', ''net7.0''] ''yes'' True,
      Run example_project ''Release'' ''net6.0'' True (example_args [''net6.0'', ''net7.0'']),
      Run example_project ''Release'' ''net7.0'' True (example_args [''net6.0'', ''net7.0'']),
      Run_scripts (example_args [''net6.0'', ''net7.0'']) True example_project]"
  using full_mode_two_frameworks
    [of "obliging (example_args [''net6.0'', ''net7.0'']) :: unit collaborators" "[]"
        "example_args [''net6.0'', ''net7.0'']" "[''net6.0'', ''net7.0'']" "[''6.0'', ''7.0'']"
        Map.empty]
  by (simp add: obliging_simps store_true_flags_def example_channel_def example_args_def example_project_def
      benchmarks_csproj_def)

text \<open>
  C4. When \<^verbatim>\<open>generate_benchview_data\<close> is set and \<^verbatim>\<open>benchview_submission_name\<close> is empty
  or absent, \<^verbatim>\<open>__main\<close> ends in an exception and has called no installer, no build, no
  run and no report, whatever the collaborators do; the only calls it can have made are
  \<^verbatim>\<open>validate_supported_runtime\<close> and \<^verbatim>\<open>setup_loggers\<close>, and when these two return the
  exception is the \<^verbatim>\<open>RuntimeError\<close> that names \<^verbatim>\<open>--benchview-submission-name\<close>.
\<close>

theorem report_needs_submission_name:
  assumes "parse_args k argv = Inr a"
    and "generate_benchview_data a"
    and "falsy (benchview_submission_name a)"
  shows "fst (main k argv (start e)) \<noteq> None
       \<and> call_count is_install (snd (main k argv (start e))) = 0
       \<and> call_count is_build (snd (main k argv (start e))) = 0
       \<and> call_count is_run (snd (main k argv (start e))) = 0
       \<and> call_count is_report (snd (main k argv (start e))) = 0
       \<and> prefix (made (snd (main k argv (start e))))
            [Validate_supported_runtime, Setup_loggers (\<not> quiet a)]
       \<and> ((\<forall>w c. outcome k w c = None) \<longrightarrow>
            fst (main k argv (start e)) = Some (RuntimeError submission_name_message))"
  using assms
  by (auto simp: main_def main_parsed_def Let_def and_then_def invoke_def raise_def made_def
      call_count_def start_def split: option.splits)

theorem report_needs_submission_name_witness:
  "fst (main (obliging ((example_args [''net6.0''])\<lparr>generate_benchview_data := True\<rparr>)
               :: unit collaborators) [] (start Map.empty)) =
     Some (RuntimeError submission_name_message)
   \<and> call_count is_install
       (snd (main (obliging ((example_args [''net6.0''])\<lparr>generate_benchview_data := True\<rparr>)
                     :: unit collaborators) [] (start Map.empty))) = 0"
  using report_needs_submission_name
    [of "obliging ((example_args [''net6.0''])\<lparr>generate_benchview_data := True\<rparr>)
           :: unit collaborators" "[]"
        "(example_args [''net6.0''])\<lparr>generate_benchview_data := True\<rparr>" Map.empty]
  by (simp add: obliging_simps store_true_flags_def example_args_def)

text \<open>
  C9, as claimed: with \<^verbatim>\<open>generate_benchview_data\<close> false no report call is made. One is:
  \<^verbatim>\<open>benchview.run_scripts\<close> is called after the run of \<^verbatim>\<open>net6.0\<close> although the flag
  is false.
\<close>

theorem report_called_without_flag:
  "\<not> generate_benchview_data (example_args [''net6.0''])
   \<and> filter is_report
       (made (snd (main (obliging (example_args [''net6.0'']) :: unit collaborators) []
                     (start Map.empty)))) =
     [Run_scripts (example_args [''net6.0'']) True example_project]"
  using main_returns(2)
    [of "obliging (example_args [''net6.0'']) :: unit collaborators" "[]"
        "example_args [''net6.0'']" "[''net6.0'']" "[''6.0'']" Map.empty]
  by (simp add: obliging_simps store_true_flags_def example_channel_def example_args_def example_project_def
      benchmarks_csproj_def)

text \<open>
  C9, amended: \<^verbatim>\<open>__main\<close> does not test \<^verbatim>\<open>generate_benchview_data\<close> before reporting.
  With the flag false, when every call returns, \<^verbatim>\<open>benchview.run_scripts\<close> is called
  exactly once, as the last call, after the runs, unless \<^verbatim>\<open>--build-only\<close> is set, in which
  case it is not called; the flag reaches the collaborator inside \<^verbatim>\<open>args\<close>.
\<close>

theorem report_follows_runs_whatever_the_flag:
  assumes "\<And>w c. outcome k w c = None"
    and "parse_args k argv = Inr a"
    and "\<not> generate_benchview_data a"
    and "get_target_framework_monikers k (frameworks a) = Inr tfms"
    and "channels_of (get_channel k) tfms = Inr cs"
  shows "filter is_report (made (snd (main k argv (start e)))) =
           (if build_only a then [] else [Run_scripts a (\<not> quiet a) (benchmarks_csproj a)])
       \<and> (\<not> build_only a \<longrightarrow>
            last (made (snd (main k argv (start e)))) =
              Run_scripts a (\<not> quiet a) (benchmarks_csproj a))"
proof -
  have ok: "\<not> (generate_benchview_data a \<and> falsy (benchview_submission_name a))"
    using assms(3) by simp
  show ?thesis
    using main_returns(2) [OF assms(1,2) ok assms(4,5), of e]
    by (simp add: comp_def)
qed

theorem report_follows_runs_whatever_the_flag_witness:
  "filter is_report
     (made (snd (main (obliging (example_args [''net6.0'', ''net7.0'']) :: unit collaborators) []
                   (start Map.empty)))) =
   [Run_scripts (example_args [''net6.0'', ''net7.0'']) True example_project]"
  using report_follows_runs_whatever_the_flag
    [of "obliging (example_args [''net6.0'', ''net7.0'']) :: unit collaborators" "[]"
        "example_args [''net6.0'', ''net7.0'']" "[''net6.0'', ''net7.0'']" "[''6.0'', ''7.0'']"
        Map.empty]
  by (simp add: obliging_simps store_true_flags_def example_channel_def example_args_def example_project_def
      benchmarks_csproj_def)


text \<open>
  C10. With both \<^verbatim>\<open>--build-only\<close> and \<^verbatim>\<open>--run-only\<close> set, \<^verbatim>\<open>__main\<close> makes no
  \<^verbatim>\<open>build\<close>, no \<^verbatim>\<open>run\<close> and no \<^verbatim>\<open>run_scripts\<close> call, whatever the collaborators do.
  When the report options pass the check and every call returns, it returns without an
  exception, having provisioned the tools (both installers called) and set the
  environment variable to the joined monikers.
\<close>

theorem both_flags_provision_only:
  assumes "parse_args k argv = Inr a"
    and "build_only a" and "run_only a"
  shows "call_count is_build (snd (main k argv (start e))) = 0
       \<and> call_count is_run (snd (main k argv (start e))) = 0
       \<and> call_count is_report (snd (main k argv (start e))) = 0
       \<and> ((\<forall>w c. outcome k w c = None)
            \<and> \<not> (generate_benchview_data a \<and> falsy (benchview_submission_name a))
            \<and> get_target_framework_monikers k (frameworks a) = Inr tfms
            \<and> channels_of (get_channel k) tfms = Inr cs \<longrightarrow>
            fst (main k argv (start e)) = None
            \<and> made (snd (main k argv (start e))) =
                [Validate_supported_runtime, Setup_loggers (\<not> quiet a),
                 Logger_info ''Installing tools.'',
                 Dotnet_install (architecture a) cs (dotnet_version a) (\<not> quiet a),
                 Benchview_install, Dotnet_info (\<not> quiet a),
                 New_csharp_project (csprojfile a) (bin_directory a)]
            \<and> environ (snd (main k argv (start e))) =
                e(target_frameworks_var \<mapsto> join '';'' tfms))"
proof (intro conjI impI)
  show "call_count is_build (snd (main k argv (start e))) = 0"
    by (rule main_avoids [OF assms(1) run_only_avoids_build [OF assms(3)]]) simp
  have "call_count (\<lambda>c. is_run c \<or> is_report c) (snd (main k argv (start e))) = 0"
    by (rule main_avoids [OF assms(1) build_only_avoids_run [OF assms(2)]]) simp
  then have none: "filter (\<lambda>c. is_run c \<or> is_report c) (made (snd (main k argv (start e)))) = []"
    by (simp add: call_count_def)
  show "call_count is_run (snd (main k argv (start e))) = 0"
    using none by (auto simp: call_count_def filter_empty_conv)
  show "call_count is_report (snd (main k argv (start e))) = 0"
    using none by (auto simp: call_count_def filter_empty_conv)
next
  assume h: "(\<forall>w c. outcome k w c = None)
      \<and> \<not> (generate_benchview_data a \<and> falsy (benchview_submission_name a))
      \<and> get_target_framework_monikers k (frameworks a) = Inr tfms
      \<and> channels_of (get_channel k) tfms = Inr cs"
  then have r: "\<And>w c. outcome k w c = None" by simp
  note m = main_returns [OF r assms(1), of tfms cs e]
  from h m(1) show "fst (main k argv (start e)) = None" by simp
  from h m(2) assms(2,3)
  show "made (snd (main k argv (start e))) =
      [Validate_supported_runtime, Setup_loggers (\<not> quiet a),
       Logger_info ''Installing tools.'',
       Dotnet_install (architecture a) cs (dotnet_version a) (\<not> quiet a),
       Benchview_install, Dotnet_info (\<not> quiet a),
       New_csharp_project (csprojfile a) (bin_directory a)]"
    by simp
  from h m(3)
  show "environ (snd (main k argv (start e))) = e(target_frameworks_var \<mapsto> join '';'' tfms)"
    by simp
qed

theorem both_flags_provision_only_witness:
  "fst (main (obliging (example_args [''net6.0'', ''net7.0''])
               :: unit collaborators) [''--build-only'', ''--run-only''] (start Map.empty)) = None
   \<and> call_count is_build
       (snd (main (obliging (example_args [''net6.0'', ''net7.0''])
                     :: unit collaborators) [''--build-only'', ''--run-only''] (start Map.empty))) = 0
   \<and> environ
       (snd (main (obliging (example_args [''net6.0'', ''net7.0''])
                     :: unit collaborators) [''--build-only'', ''--run-only''] (start Map.empty)))
       target_frameworks_var = Some ''net6.0;net7.0''"
  using both_flags_provision_only
    [of "obliging (example_args [''net6.0'', ''net7.0''])
           :: unit collaborators" "[''--build-only'', ''--run-only'']"
        "(example_args [''net6.0'', ''net7.0''])\<lparr>build_only := True, run_only := True\<rparr>"
        Map.empty "[''net6.0'', ''net7.0'']" "[''6.0'', ''7.0'']"]
  by (simp add: obliging_simps store_true_flags_def example_channel_def example_args_def)

text \<open>
  C2, as claimed: with both flags set the program fails before provisioning and installs
  nothing. It does not: it returns without an exception after calling both installers.
\<close>

theorem both_flags_accepted:
  "parse_args (obliging (example_args [''net6.0'']) :: unit collaborators)
     [''--build-only'', ''--run-only''] =
     Inr ((example_args [''net6.0''])\<lparr>build_only := True, run_only := True\<rparr>)
   \<and> fst (main (obliging (example_args [''net6.0''])
                 :: unit collaborators) [''--build-only'', ''--run-only''] (start Map.empty)) = None
   \<and> filter is_install
        (made (snd (main (obliging (example_args [''net6.0''])
                 :: unit collaborators) [''--build-only'', ''--run-only''] (start Map.empty)))) =
      [Dotnet_install ''x64'' [''6.0''] None True, Benchview_install]"
  using main_returns(1,2)
    [of "obliging (example_args [''net6.0''])
           :: unit collaborators" "[''--build-only'', ''--run-only'']"
        "(example_args [''net6.0''])\<lparr>build_only := True, run_only := True\<rparr>"
        "[''net6.0'']" "[''6.0'']" Map.empty]
  by (simp add: obliging_simps store_true_flags_def example_channel_def example_args_def)

text \<open>
  C2, amended: \<^verbatim>\<open>__main\<close> never compares the two flags. With both set, once
  \<^verbatim>\<open>validate_supported_runtime\<close> and \<^verbatim>\<open>setup_loggers\<close> have returned, the report options
  have passed their check, \<^verbatim>\<open>get_target_framework_monikers\<close> has returned the monikers of
  \<^verbatim>\<open>args.frameworks\<close> and \<^verbatim>\<open>get_channel\<close> has returned for each of them, provisioning
  begins: \<^verbatim>\<open>Installing tools.\<close> is logged and \<^verbatim>\<open>dotnet.install\<close> is called with those
  channels. No build and no run call is made.
\<close>

theorem both_flags_reach_provisioning:
  assumes "parse_args k argv = Inr a"
    and "build_only a" and "run_only a"
    and "\<not> (generate_benchview_data a \<and> falsy (benchview_submission_name a))"
    and "get_target_framework_monikers k (frameworks a) = Inr tfms"
    and "channels_of (get_channel k) tfms = Inr cs"
    and "\<And>w. outcome k w Validate_supported_runtime = None"
    and "\<And>w. outcome k w (Setup_loggers (\<not> quiet a)) = None"
  shows "prefix [Validate_supported_runtime, Setup_loggers (\<not> quiet a),
                 Logger_info ''Installing tools.'',
                 Dotnet_install (architecture a) cs (dotnet_version a) (\<not> quiet a)]
           (made (snd (main k argv (start e))))
       \<and> call_count is_build (snd (main k argv (start e))) = 0
       \<and> call_count is_run (snd (main k argv (start e))) = 0"
proof (intro conjI)
  have ok: "(generate_benchview_data a \<and> falsy (benchview_submission_name a)) = False"
    using assms(4) by simp
  show "prefix [Validate_supported_runtime, Setup_loggers (\<not> quiet a),
                Logger_info ''Installing tools.'',
                Dotnet_install (architecture a) cs (dotnet_version a) (\<not> quiet a)]
          (made (snd (main k argv (start e))))"
    using assms(1,2,3,5,6)
    by (auto simp: main_def main_parsed_def init_tools_def Let_def and_then_def invoke_def
        logger_info_def environ_set_def skip_def made_def start_def ok assms(7,8)
        split: option.splits)
  show "call_count is_build (snd (main k argv (start e))) = 0"
    by (rule main_avoids [OF assms(1) run_only_avoids_build [OF assms(3)]]) simp
  have "call_count (\<lambda>c. is_run c \<or> is_report c) (snd (main k argv (start e))) = 0"
    by (rule main_avoids [OF assms(1) build_only_avoids_run [OF assms(2)]]) simp
  then show "call_count is_run (snd (main k argv (start e))) = 0"
    by (auto simp: call_count_def filter_empty_conv)
qed

theorem both_flags_reach_provisioning_witness:
  "prefix [Validate_supported_runtime, Setup_loggers True, Logger_info ''Installing tools.'',
           Dotnet_install ''x64'' [''6.0''] None True]
     (made (snd (main (obliging (example_args [''net6.0''])
                   :: unit collaborators) [''--build-only'', ''--run-only''] (start Map.empty))))"
  using both_flags_reach_provisioning
    [of "obliging (example_args [''net6.0''])
           :: unit collaborators" "[''--build-only'', ''--run-only'']"
        "(example_args [''net6.0''])\<lparr>build_only := True, run_only := True\<rparr>"
        "[''net6.0'']" "[''6.0'']" Map.empty]
  by (simp add: obliging_simps store_true_flags_def example_channel_def example_args_def)


subsection \<open>A run that raises\<close>

lemma run_each_stops:
  assumes "\<And>w c. outcome k w c = (if c = Run proj (configuration a) f verbose a then Some x else None)"
    and "f \<notin> set pre"
  shows "run_each k proj a verbose (pre @ f # post) w =
    (Some (Raised x),
     w\<lparr>calls := calls w @ map (\<lambda>g. (Run proj (configuration a) g verbose a, environ w)) (pre @ [f])\<rparr>)"
  using assms(2)
  by (induction pre arbitrary: w) (auto simp: and_then_def invoke_def assms(1))

lemma main_stops:
  assumes "\<And>w c. outcome k w c =
      (if c = Run (benchmarks_csproj a) (configuration a) f (\<not> quiet a) a then Some x else None)"
    and "parse_args k argv = Inr a"
    and "\<not> build_only a"
    and "\<not> (generate_benchview_data a \<and> falsy (benchview_submission_name a))"
    and "get_target_framework_monikers k (frameworks a) = Inr tfms"
    and "channels_of (get_channel k) tfms = Inr cs"
    and "frameworks a = pre @ f # post" and "f \<notin> set pre"
  shows "fst (main k argv (start e)) = Some (Raised x)"
    and "made (snd (main k argv (start e))) =
        [Validate_supported_runtime, Setup_loggers (\<not> quiet a),
         Logger_info ''Installing tools.'',
         Dotnet_install (architecture a) cs (dotnet_version a) (\<not> quiet a), Benchview_install,
         Dotnet_info (\<not> quiet a), New_csharp_project (csprojfile a) (bin_directory a)] @
        (if run_only a then []
         else [Build (benchmarks_csproj a) (configuration a) tfms (incremental a) (\<not> quiet a)]) @
        map (\<lambda>g. Run (benchmarks_csproj a) (configuration a) g (\<not> quiet a) a) (pre @ [f])"
proof -
  have ok: "(generate_benchview_data a \<and> falsy (benchview_submission_name a)) = False"
    using assms(4) by simp
  note stop = run_each_stops [of k "benchmarks_csproj a" a f "\<not> quiet a" x pre post, OF assms(1,8)]
  show "fst (main k argv (start e)) = Some (Raised x)"
    using assms(2,3,5,6,7)
    by (simp add: main_def main_parsed_def init_tools_def Let_def and_then_def invoke_def
        logger_info_def environ_set_def skip_def start_def ok assms(1) stop)
  show "made (snd (main k argv (start e))) =
        [Validate_supported_runtime, Setup_loggers (\<not> quiet a),
         Logger_info ''Installing tools.'',
         Dotnet_install (architecture a) cs (dotnet_version a) (\<not> quiet a), Benchview_install,
         Dotnet_info (\<not> quiet a), New_csharp_project (csprojfile a) (bin_directory a)] @
        (if run_only a then []
         else [Build (benchmarks_csproj a) (configuration a) tfms (incremental a) (\<not> quiet a)]) @
        map (\<lambda>g. Run (benchmarks_csproj a) (configuration a) g (\<not> quiet a) a) (pre @ [f])"
    using assms(2,3,5,6,7)
    by (simp add: main_def main_parsed_def init_tools_def Let_def and_then_def invoke_def
        logger_info_def environ_set_def skip_def start_def made_def comp_def ok assms(1) stop)
qed

lemma failing_run_simps:
  "outcome (failing_run f x a) w c =
     (if c = Run (benchmarks_csproj a) (configuration a) f (\<not> quiet a) a then Some x else None)"
  "get_channel (failing_run f x a) = example_channel"
  "get_target_framework_monikers (failing_run f x a) = Inr"
  "parse_args (failing_run f x a) argv = Inr (store_true_flags argv a)"
  by (simp_all add: failing_run_def)

text \<open>
  C5, as claimed: after an ordinary failure of one run, the later runs and the report still
  take place. They do not: when the run of \<^verbatim>\<open>net6.0\<close> raises a failure marked ordinary, the
  exception leaves \<^verbatim>\<open>__main\<close>, \<^verbatim>\<open>net7.0\<close> is not run and \<^verbatim>\<open>run_scripts\<close> is not called.
\<close>

theorem ordinary_failure_aborts:
  "fst (main (failing_run ''net6.0'' Ordinary (example_args [''net6.0'', ''net7.0''])) []
          (start Map.empty)) = Some (Raised Ordinary)
   \<and> filter is_run
       (made (snd (main (failing_run ''net6.0'' Ordinary (example_args [''net6.0'', ''net7.0'']))
                     [] (start Map.empty)))) =
     [Run example_project ''Release'' ''net6.0'' True (example_args [''net6.0'', ''net7.0''])]
   \<and> filter is_report
       (made (snd (main (failing_run ''net6.0'' Ordinary (example_args [''net6.0'', ''net7.0'']))
                     [] (start Map.empty)))) = []"
  using main_stops
    [of "failing_run ''net6.0'' Ordinary (example_args [''net6.0'', ''net7.0''])"
        "example_args [''net6.0'', ''net7.0'']" "''net6.0''" Ordinary "[]"
        "[''net6.0'', ''net7.0'']" "[''6.0'', ''7.0'']" "[]" "[''net7.0'']" Map.empty]
  by (simp add: failing_run_simps store_true_flags_def example_channel_def example_args_def example_project_def
      benchmarks_csproj_def)

text \<open>
  C5, amended: the script does not look at what a run raises. If the run of one framework
  raises, whatever the exception, and every other call returns, then the exception leaves
  \<^verbatim>\<open>__main\<close>, the frameworks after it are not run and \<^verbatim>\<open>run_scripts\<close> is not called; if
  that run returns as well, all frameworks are run in order and \<^verbatim>\<open>run_scripts\<close> is called
  once.
\<close>

theorem run_exception_ends_matrix:
  assumes "\<And>w c. outcome k w c =
      (if c = Run (benchmarks_csproj a) (configuration a) f (\<not> quiet a) a then r else None)"
    and "parse_args k argv = Inr a"
    and "\<not> build_only a"
    and "\<not> (generate_benchview_data a \<and> falsy (benchview_submission_name a))"
    and "get_target_framework_monikers k (frameworks a) = Inr tfms"
    and "channels_of (get_channel k) tfms = Inr cs"
    and "frameworks a = pre @ f # post" and "f \<notin> set pre"
  shows "case r of
           None \<Rightarrow>
             fst (main k argv (start e)) = None
             \<and> filter is_run (made (snd (main k argv (start e)))) =
                 map (\<lambda>g. Run (benchmarks_csproj a) (configuration a) g (\<not> quiet a) a)
                   (frameworks a)
             \<and> call_count is_report (snd (main k argv (start e))) = 1
         | Some x \<Rightarrow>
             fst (main k argv (start e)) = Some (Raised x)
             \<and> filter is_run (made (snd (main k argv (start e)))) =
                 map (\<lambda>g. Run (benchmarks_csproj a) (configuration a) g (\<not> quiet a) a)
                   (pre @ [f])
             \<and> call_count is_report (snd (main k argv (start e))) = 0"
proof (cases r)
  case None
  with assms(1) have o: "\<And>w c. outcome k w c = None" by simp
  from main_returns [OF o assms(2,4,5,6), of e] assms(3) None
  show ?thesis by (simp add: call_count_def comp_def)
next
  case (Some x)
  with assms(1) have o: "\<And>w c. outcome k w c =
      (if c = Run (benchmarks_csproj a) (configuration a) f (\<not> quiet a) a then Some x else None)"
    by simp
  from main_stops [OF o assms(2-8), of e] Some
  show ?thesis by (simp add: call_count_def comp_def)
qed

theorem run_exception_ends_matrix_witness:
  "fst (main (failing_run ''net6.0'' Fatal (example_args [''net6.0'', ''net7.0''])) []
          (start Map.empty)) = Some (Raised Fatal)
   \<and> call_count is_report
       (snd (main (failing_run ''net6.0'' Fatal (example_args [''net6.0'', ''net7.0''])) []
               (start Map.empty))) = 0"
  using run_exception_ends_matrix
    [of "failing_run ''net6.0'' Fatal (example_args [''net6.0'', ''net7.0''])"
        "example_args [''net6.0'', ''net7.0'']" "''net6.0''" "Some Fatal" "[]"
        "[''net6.0'', ''net7.0'']" "[''6.0'', ''7.0'']" "[]" "[''net7.0'']" Map.empty]
  by (simp add: failing_run_simps store_true_flags_def example_channel_def example_args_def)


subsection \<open>The environment variable\<close>

lemma before_set_start: "before_set e (start e)"
  by (simp add: before_set_def builds_see_def start_def)

lemma before_set_at_most: "before_set e w \<Longrightarrow> set_at_most e w"
  by (simp add: before_set_def set_at_most_def)

lemma after_set_at_most: "after_set e tfms w \<Longrightarrow> set_at_most e w"
  by (simp add: after_set_def set_at_most_def)

lemma before_set_invoke:
  assumes "\<not> is_build c"
  shows "passes (before_set e) (invoke k c) (before_set e) (set_at_most e)"
proof (rule passes_invoke)
  fix w assume "before_set e w"
  with assms show b: "before_set e (w\<lparr>calls := calls w @ [(c, environ w)]\<rparr>)"
    by (auto simp: before_set_def builds_see_def)
  then show "set_at_most e (w\<lparr>calls := calls w @ [(c, environ w)]\<rparr>)"
    by (rule before_set_at_most)
qed

lemma before_set_init_tools:
  "passes (before_set e) (init_tools k arch vers tfms verbose) (before_set e) (set_at_most e)"
proof -
  have l: "passes (before_set e) (logger_info ''Installing tools.'') (before_set e) (set_at_most e)"
    by (rule passes_logger_info) (auto simp: before_set_def builds_see_def)
  have r: "passes (before_set e) (raise x) (before_set e) (set_at_most e)" for x :: "'a error"
    by (auto simp: passes_def raise_def intro: before_set_at_most)
  show ?thesis
    unfolding init_tools_def
    by (auto intro!: passes_and_then [OF l] passes_and_then [where Q = "before_set e"]
        before_set_invoke r split: sum.splits)
qed

lemma after_set_invoke:
  assumes "\<And>p c ms i v. call = Build p c ms i v \<Longrightarrow> ms = tfms"
  shows "passes (after_set e tfms) (invoke k call) (after_set e tfms) (after_set e tfms)"
proof (rule passes_invoke)
  fix w assume "after_set e tfms w"
  with assms show "after_set e tfms (w\<lparr>calls := calls w @ [(call, environ w)]\<rparr>)"
    by (auto simp: after_set_def builds_see_def)
  then show "after_set e tfms (w\<lparr>calls := calls w @ [(call, environ w)]\<rparr>)" .
qed

lemma after_set_run_each:
  "passes (after_set e tfms) (run_each k proj a verbose fs) (after_set e tfms) (after_set e tfms)"
  by (induction fs) (auto intro!: passes_skip passes_and_then after_set_invoke)

lemma environ_set_passes:
  "passes (before_set e) (environ_set target_frameworks_var (join '';'' tfms))
     (after_set e tfms) (set_at_most e)"
  by (rule passes_environ_set) (simp add: before_set_def after_set_def builds_see_def)

lemma main_parsed_environment:
  "passes (before_set e) (main_parsed k a) (set_at_most e) (set_at_most e)"
proof -
  have r: "passes (before_set e) (raise x) (set_at_most e) (set_at_most e)" for x :: "'a error"
    by (auto simp: passes_def raise_def intro: before_set_at_most)
  have rest: "passes (after_set e tfms)
      (and_then (invoke k (Dotnet_info (\<not> quiet a)))
      (and_then (invoke k (New_csharp_project (csprojfile a) (bin_directory a)))
      (and_then
         (if \<not> run_only a
          then invoke k (Build (benchmarks_csproj a) (configuration a) tfms (incremental a)
                           (\<not> quiet a))
          else skip)
         (if \<not> build_only a
          then and_then (run_each k (benchmarks_csproj a) a (\<not> quiet a) (frameworks a))
                        (invoke k (Run_scripts a (\<not> quiet a) (benchmarks_csproj a)))
          else skip))))
      (set_at_most e) (set_at_most e)" for tfms
  proof -
    have "passes (after_set e tfms)
      (and_then (invoke k (Dotnet_info (\<not> quiet a)))
      (and_then (invoke k (New_csharp_project (csprojfile a) (bin_directory a)))
      (and_then
         (if \<not> run_only a
          then invoke k (Build (benchmarks_csproj a) (configuration a) tfms (incremental a)
                           (\<not> quiet a))
          else skip)
         (if \<not> build_only a
          then and_then (run_each k (benchmarks_csproj a) a (\<not> quiet a) (frameworks a))
                        (invoke k (Run_scripts a (\<not> quiet a) (benchmarks_csproj a)))
          else skip))))
      (after_set e tfms) (after_set e tfms)"
      by (auto intro!: passes_and_then after_set_invoke after_set_run_each passes_skip)
    then show ?thesis
      by (rule passes_weaken) (auto intro: after_set_at_most)
  qed
  have tools: "passes (before_set e)
      (and_then (init_tools k (architecture a) (dotnet_version a) tfms (\<not> quiet a))
      (and_then (environ_set target_frameworks_var (join '';'' tfms))
      (and_then (invoke k (Dotnet_info (\<not> quiet a)))
      (and_then (invoke k (New_csharp_project (csprojfile a) (bin_directory a)))
      (and_then
         (if \<not> run_only a
          then invoke k (Build (benchmarks_csproj a) (configuration a) tfms (incremental a)
                           (\<not> quiet a))
          else skip)
         (if \<not> build_only a
          then and_then (run_each k (benchmarks_csproj a) a (\<not> quiet a) (frameworks a))
                        (invoke k (Run_scripts a (\<not> quiet a) (benchmarks_csproj a)))
          else skip))))))
      (set_at_most e) (set_at_most e)" for tfms
    by (rule passes_and_then [OF before_set_init_tools])
       (rule passes_and_then [OF environ_set_passes rest])
  have loggers: "passes (before_set e) (invoke k (Setup_loggers (\<not> quiet a)))
      (before_set e) (set_at_most e)"
    by (rule before_set_invoke) simp
  show ?thesis
    unfolding main_parsed_def Let_def
  proof (rule passes_and_then [OF loggers])
    show "passes (before_set e)
       (if generate_benchview_data a \<and> falsy (benchview_submission_name a)
        then raise (RuntimeError submission_name_message)
        else
          (case get_target_framework_monikers k (frameworks a) of
             Inl x \<Rightarrow> raise (Raised x)
           | Inr tfms \<Rightarrow>
               and_then (init_tools k (architecture a) (dotnet_version a) tfms (\<not> quiet a))
              (and_then (environ_set target_frameworks_var (join '';'' tfms))
              (and_then (invoke k (Dotnet_info (\<not> quiet a)))
              (and_then (invoke k (New_csharp_project (csprojfile a) (bin_directory a)))
              (and_then
                 (if \<not> run_only a
                  then invoke k (Build (benchmarks_csproj a) (configuration a) tfms
                                   (incremental a) (\<not> quiet a))
                  else skip)
                 (if \<not> build_only a
                  then and_then
                         (run_each k (benchmarks_csproj a) a (\<not> quiet a) (frameworks a))
                         (invoke k (Run_scripts a (\<not> quiet a) (benchmarks_csproj a)))
                  else skip)))))))
       (set_at_most e) (set_at_most e)"
    proof (cases "generate_benchview_data a \<and> falsy (benchview_submission_name a)")
      case True
      show ?thesis by (subst if_P [OF True]) (rule r)
    next
      case False
      show ?thesis
      proof (cases "get_target_framework_monikers k (frameworks a)")
        case (Inl x)
        show ?thesis by (subst if_not_P [OF False]) (simp only: Inl sum.case r)
      next
        case (Inr tfms)
        show ?thesis by (subst if_not_P [OF False]) (simp only: Inr sum.case tools)
      qed
    qed
  qed
qed

lemma main_environment:
  "passes (before_set e) (main k argv) (set_at_most e) (set_at_most e)"
proof -
  have r: "passes (before_set e) (raise x) (set_at_most e) (set_at_most e)" for x :: "'a error"
    by (auto simp: passes_def raise_def intro: before_set_at_most)
  have v: "passes (before_set e) (invoke k Validate_supported_runtime)
      (before_set e) (set_at_most e)"
    by (rule before_set_invoke) simp
  show ?thesis
    unfolding main_def
  proof (rule passes_and_then [OF v])
    show "passes (before_set e)
       (case parse_args k argv of Inl x \<Rightarrow> raise x | Inr a \<Rightarrow> main_parsed k a)
       (set_at_most e) (set_at_most e)"
      by (cases "parse_args k argv") (simp_all only: sum.case r main_parsed_environment)
  qed
qed

text \<open>
  C8. Every \<^verbatim>\<open>build\<close> call that \<^verbatim>\<open>__main\<close> makes is made in the environment it started
  with in which \<^verbatim>\<open>PYTHON_SCRIPT_TARGET_FRAMEWORKS\<close> is set to the monikers the call carries,
  joined by semicolons: the assignment precedes the call and nothing else is changed. When
  \<^verbatim>\<open>__main\<close> ends, by return or by exception, \<^verbatim>\<open>os.environ\<close> differs from the initial
  environment in that variable at most.
\<close>

theorem build_sees_target_frameworks:
  "(\<forall>p c ms i v en.
      (Build p c ms i v, en) \<in> set (calls (snd (main k argv (start e)))) \<longrightarrow>
      en = e(target_frameworks_var \<mapsto> join '';'' ms))
   \<and> (\<forall>x. x \<noteq> target_frameworks_var \<longrightarrow> environ (snd (main k argv (start e))) x = e x)"
  using passes_after [OF main_environment before_set_start, of e k argv]
  by (simp add: set_at_most_def builds_see_def)


theorem build_sees_target_frameworks_witness:
  "fst (calls (snd (main (obliging (example_args [''net6.0'', ''net7.0'']) :: unit collaborators) []
                     (start Map.empty))) ! 7) =
     Build example_project ''Release'' [''net6.0'', ''net7.0''] ''yes'' True
   \<and> snd (calls (snd (main (obliging (example_args [''net6.0'', ''net7.0'']) :: unit collaborators) []
                        (start Map.empty))) ! 7) target_frameworks_var =
     Some ''net6.0;net7.0''"
proof -
  define W where
    "W = snd (main (obliging (example_args [''net6.0'', ''net7.0'']) :: unit collaborators) []
                (start Map.empty))"
  have m: "map fst (calls W) =
     [Validate_supported_runtime, Setup_loggers True, Logger_info ''Installing tools.'',
      Dotnet_install ''x64'' [''6.0'', ''7.0''] None True, Benchview_install,
      Dotnet_info True, New_csharp_project ''MicroBenchmarks.csproj'' ''bin'',
      Build example_project ''Release'' [''net6.0'', ''net7.0''] ''yes'' True,
      Run example_project ''Release'' ''net6.0'' True (example_args [''net6.0'', ''net7.0'']),
      Run example_project ''Release'' ''net7.0'' True (example_args [''net6.0'', ''net7.0'']),
      Run_scripts (example_args [''net6.0'', ''net7.0'']) True example_project]"
    unfolding W_def
    using main_returns(2)
      [of "obliging (example_args [''net6.0'', ''net7.0'']) :: unit collaborators" "[]"
          "example_args [''net6.0'', ''net7.0'']" "[''net6.0'', ''net7.0'']" "[''6.0'', ''7.0'']"
          Map.empty]
    by (simp add: obliging_simps store_true_flags_def example_channel_def example_args_def example_project_def
        benchmarks_csproj_def made_def)
  from m have "length (map fst (calls W)) = 11" by simp
  then have len: "7 < length (calls W)" by simp
  from m have "map fst (calls W) ! 7 =
      Build example_project ''Release'' [''net6.0'', ''net7.0''] ''yes'' True"
    by simp
  with len have b: "fst (calls W ! 7) =
      Build example_project ''Release'' [''net6.0'', ''net7.0''] ''yes'' True"
    by simp
  from len have "calls W ! 7 \<in> set (calls W)" by (rule nth_mem)
  with b have "(Build example_project ''Release'' [''net6.0'', ''net7.0''] ''yes'' True,
      snd (calls W ! 7)) \<in> set (calls W)"
    by (metis prod.collapse)
  with build_sees_target_frameworks
    [of "obliging (example_args [''net6.0'', ''net7.0'']) :: unit collaborators" "[]" Map.empty]
  have "snd (calls W ! 7) =
      Map.empty(target_frameworks_var \<mapsto> join '';'' [''net6.0'', ''net7.0''])"
    unfolding W_def by blast
  then have "snd (calls W ! 7) target_frameworks_var = Some ''net6.0;net7.0''" by simp
  with b show ?thesis unfolding W_def by simp
qed


subsection \<open>The timestamp\<close>

text \<open>Decimal digits, as characters and as values.\<close>

lemma below_ten:
  "(k::nat) < 10 \<Longrightarrow>
   k = 0 \<or> k = 1 \<or> k = 2 \<or> k = 3 \<or> k = 4 \<or> k = 5 \<or> k = 6 \<or> k = 7 \<or> k = 8 \<or> k = 9"
  by presburger

lemma digit_char_cases:
  "digit_char n = CHR ''0'' \<and> n mod 10 = 0 \<or> digit_char n = CHR ''1'' \<and> n mod 10 = 1 \<or>
   digit_char n = CHR ''2'' \<and> n mod 10 = 2 \<or> digit_char n = CHR ''3'' \<and> n mod 10 = 3 \<or>
   digit_char n = CHR ''4'' \<and> n mod 10 = 4 \<or> digit_char n = CHR ''5'' \<and> n mod 10 = 5 \<or>
   digit_char n = CHR ''6'' \<and> n mod 10 = 6 \<or> digit_char n = CHR ''7'' \<and> n mod 10 = 7 \<or>
   digit_char n = CHR ''8'' \<and> n mod 10 = 8 \<or> digit_char n = CHR ''9'' \<and> n mod 10 = 9"
proof -
  have "n mod 10 < 10" by simp
  then have "n mod 10 = 0 \<or> n mod 10 = 1 \<or> n mod 10 = 2 \<or> n mod 10 = 3 \<or> n mod 10 = 4 \<or>
      n mod 10 = 5 \<or> n mod 10 = 6 \<or> n mod 10 = 7 \<or> n mod 10 = 8 \<or> n mod 10 = 9"
    by (rule below_ten)
  then show ?thesis
    by (elim disjE) (simp_all add: digit_char_def)
qed

lemma digit_matches: "all_matches digit (digit_char n # r) = [([], r)]"
  using digit_char_cases [of n] by (elim disjE conjE) (simp_all add: digit_def)

lemma digit_value: "of_char (digit_char n) - 48 = n mod 10"
  using digit_char_cases [of n] by (elim disjE conjE) simp_all

lemma digit_not_blank: "digit_char n \<noteq> CHR '' ''"
  using digit_char_cases [of n] by (elim disjE conjE) simp_all

lemma int_of_two: "n < 100 \<Longrightarrow> int_of (two_digits n) = n"
  by (simp add: int_of_def two_digits_def digit_not_blank digit_value)

lemma four_places:
  fixes n :: nat
  assumes "n < 10000"
  shows "1000 * (n div 1000) + 100 * (n div 100 mod 10) + 10 * (n div 10 mod 10) + n mod 10 = n"
proof -
  have a: "n = 10 * (n div 10) + n mod 10" by simp
  have "n div 10 = 10 * (n div 10 div 10) + n div 10 mod 10" by simp
  then have b: "n div 10 = 10 * (n div 100) + n div 10 mod 10"
    by (simp add: div_mult2_eq [symmetric])
  have "n div 100 = 10 * (n div 100 div 10) + n div 100 mod 10" by simp
  then have c: "n div 100 = 10 * (n div 1000) + n div 100 mod 10"
    by (simp add: div_mult2_eq [symmetric])
  from a b c show ?thesis by linarith
qed

lemma int_of_four: "n < 10000 \<Longrightarrow> int_of (four_digits n) = n"
  by (simp add: int_of_def four_digits_def digit_not_blank digit_value four_places)

text \<open>The first match of a sequence, of a group and of a character class.\<close>

lemma re_match_Eps: "re_match Eps s = Some ([], s)"
  by (simp add: re_match_def)

lemma re_match_One: "c \<in> set cs \<Longrightarrow> re_match (One cs) (c # r) = Some ([], r)"
  by (simp add: re_match_def)

lemma re_match_Seq:
  assumes "re_match a s = Some (g, r)" and "re_match b r = Some (h, t)"
  shows "re_match (Seq a b) s = Some (g @ h, t)"
proof (cases "all_matches a s")
  case Nil
  with assms(1) show ?thesis by (simp add: re_match_def)
next
  case a: (Cons m ms)
  with assms(1) have m: "m = (g, r)" by (simp add: re_match_def)
  show ?thesis
  proof (cases "all_matches b r")
    case Nil
    with assms(2) show ?thesis by (simp add: re_match_def)
  next
    case b: (Cons n ns)
    with assms(2) have "n = (h, t)" by (simp add: re_match_def)
    with a b m show ?thesis by (simp add: re_match_def)
  qed
qed

lemma re_match_Named:
  assumes "re_match a (u @ r) = Some (g, r)"
  shows "re_match (Named n a) (u @ r) = Some ((n, u) # g, r)"
proof (cases "all_matches a (u @ r)")
  case Nil
  with assms show ?thesis by (simp add: re_match_def)
next
  case (Cons m ms)
  with assms have "m = (g, r)" by (simp add: re_match_def)
  with Cons show ?thesis by (simp add: re_match_def)
qed

lemma re_match_digit: "re_match digit (digit_char n # r) = Some ([], r)"
  by (simp add: re_match_def digit_matches)

lemma re_match_lit:
  "c \<in> set cs \<Longrightarrow> re_match b r = Some (h, t) \<Longrightarrow>
   re_match (Seq (One cs) b) (c # r) = Some (h, t)"
  using re_match_Seq [OF re_match_One, of c cs b r h t] by simp

lemma re_match_field:
  assumes "re_match (Named n a) (u @ r) = Some ([(n, u)], r)" and "re_match b r = Some (h, t)"
  shows "re_match (Seq (Named n a) b) (u @ r) = Some ((n, u) # h, t)"
  using re_match_Seq [OF assms] by simp

text \<open>Each directive matches its field written with all its digits, and takes all of it.\<close>

lemma year_matches:
  "re_match (Named ''Y'' (seqs [digit, digit, digit, digit])) (four_digits n @ r) =
     Some ([(''Y'', four_digits n)], r)"
proof -
  have d4: "re_match (Seq digit Eps) (digit_char n # r) = Some ([] @ [], r)"
    by (rule re_match_Seq [OF re_match_digit re_match_Eps])
  have d3: "re_match (Seq digit (Seq digit Eps)) (digit_char (n div 10) # digit_char n # r) =
      Some ([] @ [] @ [], r)"
    by (rule re_match_Seq [OF re_match_digit d4])
  have d2: "re_match (Seq digit (Seq digit (Seq digit Eps)))
      (digit_char (n div 100) # digit_char (n div 10) # digit_char n # r) =
      Some ([] @ [] @ [] @ [], r)"
    by (rule re_match_Seq [OF re_match_digit d3])
  have "re_match (Seq digit (Seq digit (Seq digit (Seq digit Eps))))
      (digit_char (n div 1000) # digit_char (n div 100) # digit_char (n div 10) #
       digit_char n # r) = Some ([] @ [] @ [] @ [] @ [], r)"
    by (rule re_match_Seq [OF re_match_digit d2])
  then have "re_match (seqs [digit, digit, digit, digit]) (four_digits n @ r) = Some ([], r)"
    by (simp add: seqs_def four_digits_def)
  then show ?thesis by (rule re_match_Named)
qed

lemma two_digit_cases:
  fixes v :: nat
  assumes "v \<le> 59"
    and "\<forall>t \<in> set [0, 1, 2, 3, 4, 5]. \<forall>u \<in> set [0, 1, 2, 3, 4, 5, 6, 7, 8, 9]. P (10 * t + u)"
  shows "P v"
proof -
  from assms(1) have "v div 10 \<in> set [0, 1, 2, 3, 4, 5]"
    by (simp, presburger)
  moreover have "v mod 10 \<in> set [0, 1, 2, 3, 4, 5, 6, 7, 8, 9]"
    by (simp, presburger)
  ultimately have "P (10 * (v div 10) + v mod 10)"
    using assms(2) by blast
  then show ?thesis by simp
qed

lemma month_matches:
  assumes "1 \<le> v" and "v \<le> 12"
  shows "re_match (Named ''m'' (alts [seqs [One ''1'', One ''012''],
      seqs [One ''0'', nonzero], nonzero]))
           (two_digits v @ r) = Some ([(''m'', two_digits v)], r)"
proof -
  let ?P = "\<lambda>v. 1 \<le> v \<and> v \<le> 12 \<longrightarrow>
      re_match (Named ''m'' (alts [seqs [One ''1'', One ''012''],
      seqs [One ''0'', nonzero], nonzero]))
      (two_digits v @ r) = Some ([(''m'', two_digits v)], r)"
  have "\<forall>t \<in> set [0, 1, 2, 3, 4, 5]. \<forall>u \<in> set [0, 1, 2, 3, 4, 5, 6, 7, 8, 9]. ?P (10 * t + u)"
    by (simp add: re_match_def seqs_def nonzero_def two_digits_def digit_char_def)
  moreover from assms have "v \<le> 59" by simp
  ultimately have "?P v" by (rule two_digit_cases [where P = ?P, rotated])
  with assms show ?thesis by simp
qed

lemma day_matches:
  assumes "1 \<le> v" and "v \<le> 31"
  shows "re_match (Named ''d'' (alts [seqs [One ''3'', One ''01''],
      seqs [One ''12'', digit], seqs [One ''0'', nonzero], nonzero, seqs [One '' '', nonzero]]))
           (two_digits v @ r) = Some ([(''d'', two_digits v)], r)"
proof -
  let ?P = "\<lambda>v. 1 \<le> v \<and> v \<le> 31 \<longrightarrow>
      re_match (Named ''d'' (alts [seqs [One ''3'', One ''01''],
      seqs [One ''12'', digit], seqs [One ''0'', nonzero], nonzero, seqs [One '' '', nonzero]]))
      (two_digits v @ r) = Some ([(''d'', two_digits v)], r)"
  have "\<forall>t \<in> set [0, 1, 2, 3, 4, 5]. \<forall>u \<in> set [0, 1, 2, 3, 4, 5, 6, 7, 8, 9]. ?P (10 * t + u)"
    by (simp add: re_match_def seqs_def digit_def nonzero_def two_digits_def digit_char_def)
  moreover from assms have "v \<le> 59" by simp
  ultimately have "?P v" by (rule two_digit_cases [where P = ?P, rotated])
  with assms show ?thesis by simp
qed

lemma hour_matches:
  assumes "v \<le> 23"
  shows "re_match (Named ''H'' (alts [seqs [One ''2'', One ''0123''],
      seqs [One ''01'', digit], digit]))
           (two_digits v @ r) = Some ([(''H'', two_digits v)], r)"
proof -
  let ?P = "\<lambda>v. v \<le> 23 \<longrightarrow>
      re_match (Named ''H'' (alts [seqs [One ''2'', One ''0123''],
      seqs [One ''01'', digit], digit]))
      (two_digits v @ r) = Some ([(''H'', two_digits v)], r)"
  have "\<forall>t \<in> set [0, 1, 2, 3, 4, 5]. \<forall>u \<in> set [0, 1, 2, 3, 4, 5, 6, 7, 8, 9]. ?P (10 * t + u)"
    by (simp add: re_match_def seqs_def digit_def two_digits_def digit_char_def)
  moreover from assms have "v \<le> 59" by simp
  ultimately have "?P v" by (rule two_digit_cases [where P = ?P, rotated])
  with assms show ?thesis by simp
qed

lemma minute_matches:
  assumes "v \<le> 59"
  shows "re_match (Named ''M'' (alts [seqs [One ''012345'', digit], digit]))
           (two_digits v @ r) = Some ([(''M'', two_digits v)], r)"
proof -
  let ?P = "\<lambda>v. re_match (Named ''M'' (alts [seqs [One ''012345'', digit], digit]))
      (two_digits v @ r) = Some ([(''M'', two_digits v)], r)"
  have "\<forall>t \<in> set [0, 1, 2, 3, 4, 5]. \<forall>u \<in> set [0, 1, 2, 3, 4, 5, 6, 7, 8, 9]. ?P (10 * t + u)"
    by (simp add: re_match_def seqs_def digit_def two_digits_def digit_char_def)
  moreover from assms have "v \<le> 59" by simp
  ultimately have "?P v" by (rule two_digit_cases [where P = ?P, rotated])
  with assms show ?thesis by simp
qed

lemma second_matches:
  assumes "v \<le> 59"
  shows "re_match (Named ''S'' (alts [seqs [One ''6'', One ''01''],
      seqs [One ''012345'', digit], digit]))
           (two_digits v @ r) = Some ([(''S'', two_digits v)], r)"
proof -
  let ?P = "\<lambda>v. re_match (Named ''S'' (alts [seqs [One ''6'', One ''01''],
      seqs [One ''012345'', digit], digit]))
      (two_digits v @ r) = Some ([(''S'', two_digits v)], r)"
  have "\<forall>t \<in> set [0, 1, 2, 3, 4, 5]. \<forall>u \<in> set [0, 1, 2, 3, 4, 5, 6, 7, 8, 9]. ?P (10 * t + u)"
    by (simp add: re_match_def seqs_def digit_def two_digits_def digit_char_def)
  moreover from assms have "v \<le> 59" by simp
  ultimately have "?P v" by (rule two_digit_cases [where P = ?P, rotated])
  with assms show ?thesis by simp
qed

lemma days_in_month_le: "days_in_month y m \<le> 31"
  by (simp add: days_in_month_def)

lemma rfc3339_matches:
  assumes "exists_datetime d"
  shows "re_match format_regex (rfc3339 d) =
     Some ([(''Y'', four_digits (year d)), (''m'', two_digits (month d)),
            (''d'', two_digits (day d)), (''H'', two_digits (hour d)),
            (''M'', two_digits (minute d)), (''S'', two_digits (second d))], [])"
proof -
  from assms have mo: "1 \<le> month d" "month d \<le> 12"
    and da: "1 \<le> day d" "day d \<le> 31"
    and ho: "hour d \<le> 23" and mi: "minute d \<le> 59" and se: "second d \<le> 59"
    using days_in_month_le [of "year d" "month d"] by (simp_all add: exists_datetime_def)
  have "re_match (Seq (One ''Zz'') Eps) (CHR ''Z'' # []) = Some ([], [])"
    by (rule re_match_lit [OF _ re_match_Eps]) simp
  note re_match_field [OF second_matches [OF se] this]
  note re_match_lit [of "CHR '':''" "'':''", OF _ this]
  note re_match_field [OF minute_matches [OF mi] this]
  note re_match_lit [of "CHR '':''" "'':''", OF _ this]
  note re_match_field [OF hour_matches [OF ho] this]
  note re_match_lit [of "CHR ''T''" "''Tt''", OF _ this]
  note re_match_field [OF day_matches [OF da] this]
  note re_match_lit [of "CHR ''-''" "''-''", OF _ this]
  note re_match_field [OF month_matches [OF mo] this]
  note re_match_lit [of "CHR ''-''" "''-''", OF _ this]
  note re_match_field [OF year_matches this]
  then show ?thesis
    by (simp add: format_regex_def seqs_def rfc3339_def)
qed

lemma rfc3339_accepted:
  assumes "exists_datetime d"
  shows "strptime (rfc3339 d) = Inr d"
proof -
  from assms have "year d < 10000" "month d < 100" "day d < 100" "hour d < 100"
    "minute d < 100" "second d < 100"
    using days_in_month_le [of "year d" "month d"] by (simp_all add: exists_datetime_def)
  then show ?thesis
    using assms
    by (simp add: strptime_def rfc3339_matches [OF assms] found_group_def int_of_two int_of_four
        exists_datetime_def)
qed

lemma strptime_examples:
  "strptime ''2019-04-01T12:30:00Z'' =
     Inr \<lparr>year = 2019, month = 4, day = 1, hour = 12, minute = 30, second = 0\<rparr>"
  "strptime ''2019-4-1t2:3:0z'' =
     Inr \<lparr>year = 2019, month = 4, day = 1, hour = 2, minute = 3, second = 0\<rparr>"
  "strptime ''2019-02-29T12:30:00Z'' = Inl Out_of_range"
  "strptime ''2020-02-29T12:30:60Z'' = Inl Out_of_range"
  "strptime ''2019-04-01T12:30:00Z '' = Inl Unconverted_data_remains"
  "strptime ''2019-04-01 12:30:00'' = Inl Does_not_match"
  by code_simp+

text \<open>
  C7, as claimed: a rejected timestamp fails with an error that names the option and the
  expected format. The error names the option and quotes the value, not the format: for
  \<^verbatim>\<open>yesterday\<close> the converter raises \<^verbatim>\<open>ArgumentTypeError\<close> with the message
  \<^verbatim>\<open>Datetime "yesterday" is in the wrong format.\<close>, which the parser reports after
  \<^verbatim>\<open>argument --cli-source-timestamp:\<close>; \<^verbatim>\<open>%Y-%m-%dT%H:%M:%SZ\<close> occurs nowhere in it.
\<close>

theorem timestamp_error_omits_format:
  "(cli_source_timestamp_value ''yesterday'' :: unit error + string) =
     Inl (Parser_error 2
            (''argument --cli-source-timestamp: Datetime '' @ [CHR 0x22] @ ''yesterday'' @
             [CHR 0x22] @ '' is in the wrong format.''))
   \<and> \<not> sublist ''%Y-%m-%dT%H:%M:%SZ''
         (''argument --cli-source-timestamp: Datetime '' @ [CHR 0x22] @ ''yesterday'' @
          [CHR 0x22] @ '' is in the wrong format.'')"
proof
  show "(cli_source_timestamp_value ''yesterday'' :: unit error + string) =
     Inl (Parser_error 2
            (''argument --cli-source-timestamp: Datetime '' @ [CHR 0x22] @ ''yesterday'' @
             [CHR 0x22] @ '' is in the wrong format.''))"
    by code_simp
  show "\<not> sublist ''%Y-%m-%dT%H:%M:%SZ''
         (''argument --cli-source-timestamp: Datetime '' @ [CHR 0x22] @ ''yesterday'' @
          [CHR 0x22] @ '' is in the wrong format.'')"
    by code_simp
qed

text \<open>
  C7, amended: for every timestamp string, if \<^verbatim>\<open>strptime\<close> rejects it under
  \<^verbatim>\<open>%Y-%m-%dT%H:%M:%SZ\<close> the converter raises \<^verbatim>\<open>ArgumentTypeError\<close> with the message
  \<^verbatim>\<open>Datetime "<the string>" is in the wrong format.\<close>, reported by the parser after the
  name of the option, with exit status 2; if \<^verbatim>\<open>strptime\<close> accepts it the converter
  returns the same string unchanged. Every date and time that exists, written
  \<^verbatim>\<open>YYYY-MM-DDTHH:MM:SSZ\<close> with all its digits, is accepted.
\<close>

theorem timestamp_checked:
  "((\<exists>v. strptime dt = Inl v) \<longrightarrow>
      is_valid_datetime dt =
        Inl (ArgumentTypeError
               (''Datetime '' @ [CHR 0x22] @ dt @ [CHR 0x22] @ '' is in the wrong format.''))
      \<and> cli_source_timestamp_value dt =
        Inl (Parser_error 2
               (''argument --cli-source-timestamp: Datetime '' @ [CHR 0x22] @ dt @ [CHR 0x22] @
                '' is in the wrong format.'')))
   \<and> ((\<exists>d. strptime dt = Inr d) \<longrightarrow>
      is_valid_datetime dt = Inr dt \<and> cli_source_timestamp_value dt = Inr dt)
   \<and> (exists_datetime t \<longrightarrow>
      strptime (rfc3339 t) = Inr t \<and> cli_source_timestamp_value (rfc3339 t) = Inr (rfc3339 t))"
proof (intro conjI impI)
  assume "exists_datetime t"
  then show "strptime (rfc3339 t) = Inr t" by (rule rfc3339_accepted)
  then show "cli_source_timestamp_value (rfc3339 t) = Inr (rfc3339 t)"
    by (simp add: is_valid_datetime_def cli_source_timestamp_value_def)
qed (auto simp: is_valid_datetime_def cli_source_timestamp_value_def)

theorem timestamp_checked_witness:
  "(is_valid_datetime ''2019-04-01T12:30:00Z'' :: unit error + string) = Inr ''2019-04-01T12:30:00Z''
   \<and> (is_valid_datetime ''2019-04-31T12:30:00Z'' :: unit error + string) =
       Inl (ArgumentTypeError
              (''Datetime '' @ [CHR 0x22] @ ''2019-04-31T12:30:00Z'' @ [CHR 0x22] @
               '' is in the wrong format.''))
   \<and> strptime (rfc3339 \<lparr>year = 2020, month = 2, day = 29, hour = 23, minute = 59, second = 59\<rparr>) =
       Inr \<lparr>year = 2020, month = 2, day = 29, hour = 23, minute = 59, second = 59\<rparr>"
proof -
  have a: "strptime ''2019-04-01T12:30:00Z'' =
      Inr \<lparr>year = 2019, month = 4, day = 1, hour = 12, minute = 30, second = 0\<rparr>"
    by code_simp
  have b: "strptime ''2019-04-31T12:30:00Z'' = Inl Out_of_range"
    by code_simp
  have c: "exists_datetime
      \<lparr>year = 2020, month = 2, day = 29, hour = 23, minute = 59, second = 59\<rparr>"
    by (simp add: exists_datetime_def days_in_month_def is_leap_def)
  from a timestamp_checked [of "''2019-04-01T12:30:00Z''", where 'a = unit]
  have "(is_valid_datetime ''2019-04-01T12:30:00Z'' :: unit error + string) =
      Inr ''2019-04-01T12:30:00Z''"
    by blast
  moreover from b timestamp_checked [of "''2019-04-31T12:30:00Z''", where 'a = unit]
  have "(is_valid_datetime ''2019-04-31T12:30:00Z'' :: unit error + string) =
       Inl (ArgumentTypeError
              (''Datetime '' @ [CHR 0x22] @ ''2019-04-31T12:30:00Z'' @ [CHR 0x22] @
               '' is in the wrong format.''))"
    by blast
  moreover from c timestamp_checked
    [of _ "\<lparr>year = 2020, month = 2, day = 29, hour = 23, minute = 59, second = 59\<rparr>",
     where 'a = unit]
  have "strptime (rfc3339 \<lparr>year = 2020, month = 2, day = 29, hour = 23, minute = 59, second = 59\<rparr>) =
       Inr \<lparr>year = 2020, month = 2, day = 29, hour = 23, minute = 59, second = 59\<rparr>"
    by blast
  ultimately show ?thesis by simp
qed


end
